theory Spec2Isabelle
  imports Main "HOL-Library.Sublist"
begin

section \<open>The workspace ordering script\<close>

text \<open>
  The program is \<^verbatim>\<open>scripts/workspace_order.py\<close>: a module constant
  \<^verbatim>\<open>ORDERED_PATHS\<close> and a function \<^verbatim>\<open>main\<close> that walks the constant once.
  For each entry it looks for \<^verbatim>\<open>package.json\<close> below the entry, and when that is a
  regular file it reads it, parses it as JSON, takes the value of the key \<^verbatim>\<open>name\<close>
  (the entry itself when the key is absent) and prints \<^verbatim>\<open>name|entry\<close>.

  The file system, the JSON parser, the rendering of containers and the encoding of
  standard output are the script's environment. The file system is an explicit part of
  the state; the library functions are parameters of the model. Standard output is taken
  to be a stream that accepts what is written to it, so that \<^verbatim>\<open>print\<close> can fail in
  encoding its text only.
\<close>

subsection \<open>Data\<close>

text \<open>
  A \<^verbatim>\<open>str\<close> of Python is a sequence of code points, among them the lone surrogates
  that a JSON escape can produce. A literal of the script is written with \<open>lit\<close>.
\<close>

type_synonym str = "nat list"

definition lit :: "string \<Rightarrow> str" where
  "lit cs = map of_char cs"

definition newline :: nat where
  "newline = 10"

text \<open>
  What \<^verbatim>\<open>json.loads\<close> returns: \<^verbatim>\<open>None\<close>, a \<^verbatim>\<open>bool\<close>, an \<^verbatim>\<open>int\<close>,
  a \<^verbatim>\<open>float\<close>, a \<^verbatim>\<open>str\<close>, a \<^verbatim>\<open>list\<close> or a \<^verbatim>\<open>dict\<close>. A float is
  represented by its \<^verbatim>\<open>repr\<close>, which is what \<^verbatim>\<open>str\<close> prints for it. A dict is an
  association list that is looked up from the front.
\<close>

datatype json =
    JNull
  | JBool bool
  | JInt int
  | JFloat str
  | JString str
  | JArray "json list"
  | JObject "(str \<times> json) list"

text \<open>
  The exceptions that can leave \<^verbatim>\<open>main\<close>, each with the message of the layer that
  raised it: \<^verbatim>\<open>is_file\<close> cannot examine the path (an \<^verbatim>\<open>OSError\<close> such as
  \<^verbatim>\<open>PermissionError\<close>), \<^verbatim>\<open>read_text\<close> fails (the file cannot be opened or
  decoded), \<^verbatim>\<open>json.loads\<close> raises, the parsed value has no attribute \<^verbatim>\<open>get\<close>, or
  \<^verbatim>\<open>print\<close> cannot encode its text for standard output.
\<close>

datatype fault =
    StatFault str
  | ReadFault str
  | ParseFault str
  | AttributeError
  | UnicodeEncodeError str

text \<open>
  What a path resolves to. \<open>Directory\<close> is anything that exists and is not a regular
  file. A regular file carries the result of \<^verbatim>\<open>read_text\<close> on it: the decoded text, or
  the message of the error that reading raises. \<open>Unreachable\<close> is a path that
  \<^verbatim>\<open>stat\<close> cannot examine, whatever is or is not there, with the message of an error
  that \<^verbatim>\<open>is_file\<close> does not swallow (a directory on the way is not searchable).
\<close>

datatype node =
    Missing
  | Directory
  | Regular "str + str"
  | Unreachable str

type_synonym filesystem = "str \<Rightarrow> node"

text \<open>
  The library around the script: \<^verbatim>\<open>json.loads\<close> (\<open>Inl\<close> is the message of the
  exception it raises), \<^verbatim>\<open>str\<close> on a list or a dict, and the encoder of standard
  output (the message of its \<^verbatim>\<open>UnicodeEncodeError\<close> for a text it cannot encode).
\<close>

record runtime =
  json_loads :: "str \<Rightarrow> str + json"
  str_container :: "json \<Rightarrow> str"
  encode_error :: "str \<Rightarrow> str option"

text \<open>
  The state a run can touch: the files, the module global \<^verbatim>\<open>ORDERED_PATHS\<close>, and
  standard output, the stream of code points written so far.
\<close>

record state =
  files :: filesystem
  ordered_paths :: "str list"
  stdout :: str

subsection \<open>The script\<close>

definition ORDERED_PATHS :: "str list" where
  "ORDERED_PATHS =
    [lit ''shareds/common'',
     lit ''shareds/cache'',
     lit ''shareds/async'',
     lit ''shareds/reactive'',
     lit ''packages/validator'',
     lit ''packages/expression'',
     lit ''packages/pattern-matching'',
     lit ''packages/specification'']"

text \<open>\<^verbatim>\<open>Path(rel) / "package.json"\<close>, for a relative path without a trailing slash.\<close>

definition pkg_json :: "str \<Rightarrow> str" where
  "pkg_json rel = rel @ lit ''/package.json''"

text \<open>
  \<^verbatim>\<open>Path.is_file\<close>: true for a regular file, false for a path that is missing or not
  a regular file; an error of \<^verbatim>\<open>stat\<close> other than these leaves it.
\<close>

definition is_file :: "filesystem \<Rightarrow> str \<Rightarrow> fault + bool" where
  "is_file fs path =
    (case fs path of
       Regular _ \<Rightarrow> Inr True
     | Missing \<Rightarrow> Inr False
     | Directory \<Rightarrow> Inr False
     | Unreachable msg \<Rightarrow> Inl (StatFault msg))"

text \<open>\<^verbatim>\<open>Path.read_text\<close>, called only where \<open>is_file\<close> is true.\<close>

definition read_text :: "filesystem \<Rightarrow> str \<Rightarrow> fault + str" where
  "read_text fs path =
    (case fs path of
       Regular (Inr text) \<Rightarrow> Inr text
     | Regular (Inl msg) \<Rightarrow> Inl (ReadFault msg)
     | _ \<Rightarrow> Inl (ReadFault (lit ''not a regular file'')))"

text \<open>\<^verbatim>\<open>json.loads\<close>: the library's exception leaves as it is.\<close>

definition loads :: "runtime \<Rightarrow> str \<Rightarrow> fault + json" where
  "loads L text =
    (case json_loads L text of
       Inl msg \<Rightarrow> Inl (ParseFault msg)
     | Inr v \<Rightarrow> Inr v)"

text \<open>
  \<^verbatim>\<open>data.get(key, default)\<close>: a dict answers with the value of the key or with the
  default; no other JSON value has the attribute.
\<close>

definition dict_get :: "json \<Rightarrow> str \<Rightarrow> json \<Rightarrow> fault + json" where
  "dict_get data key dflt =
    (case data of
       JObject kvs \<Rightarrow> Inr (case map_of kvs key of Some v \<Rightarrow> v | None \<Rightarrow> dflt)
     | _ \<Rightarrow> Inl AttributeError)"

text \<open>\<^verbatim>\<open>str\<close> on an int: decimal digits, with a sign when negative.\<close>

fun digits :: "nat \<Rightarrow> str" where
  "digits n =
    (if n < 10 then [48 + n]
     else digits (n div 10) @ [48 + n mod 10])"

declare digits.simps [simp del]

definition str_int :: "int \<Rightarrow> str" where
  "str_int i = (if i < 0 then lit ''-'' @ digits (nat (- i)) else digits (nat i))"

text \<open>
  The replacement field \<^verbatim>\<open>{name}\<close> of the f-string: a \<^verbatim>\<open>str\<close> is inserted as it
  is, every other value through \<^verbatim>\<open>str\<close>.
\<close>

definition format_value :: "runtime \<Rightarrow> json \<Rightarrow> str" where
  "format_value L v =
    (case v of
       JString s \<Rightarrow> s
     | JNull \<Rightarrow> lit ''None''
     | JBool b \<Rightarrow> (if b then lit ''True'' else lit ''False'')
     | JInt i \<Rightarrow> str_int i
     | JFloat r \<Rightarrow> r
     | _ \<Rightarrow> str_container L v)"

text \<open>
  \<^verbatim>\<open>print\<close>: the text and a newline go to standard output; a text that the encoder
  of standard output rejects raises before anything of it is written.
\<close>

definition print :: "runtime \<Rightarrow> state \<Rightarrow> str \<Rightarrow> state \<times> fault option" where
  "print L s text =
    (case encode_error L text of
       Some msg \<Rightarrow> (s, Some (UnicodeEncodeError msg))
     | None \<Rightarrow> (s\<lparr>stdout := stdout s @ text @ [newline]\<rparr>, None))"

text \<open>
  The body of the loop for one entry. The result is the state after the body and the
  exception that left it, if any; \<^verbatim>\<open>continue\<close> and the end of the body both give
  \<open>None\<close>.
\<close>

definition body :: "runtime \<Rightarrow> state \<Rightarrow> str \<Rightarrow> state \<times> fault option" where
  "body L s rel =
    (case is_file (files s) (pkg_json rel) of
       Inl e \<Rightarrow> (s, Some e)
     | Inr regular \<Rightarrow>
         if \<not> regular then (s, None)
         else
           (case read_text (files s) (pkg_json rel) of
              Inl e \<Rightarrow> (s, Some e)
            | Inr text \<Rightarrow>
                (case loads L text of
                   Inl e \<Rightarrow> (s, Some e)
                 | Inr data \<Rightarrow>
                     (case dict_get data (lit ''name'') (JString rel) of
                        Inl e \<Rightarrow> (s, Some e)
                      | Inr name \<Rightarrow> print L s (format_value L name @ lit ''|'' @ rel)))))"

text \<open>The \<^verbatim>\<open>for\<close> loop: nothing catches an exception, so the first one ends the loop.\<close>

fun run :: "runtime \<Rightarrow> state \<Rightarrow> str list \<Rightarrow> state \<times> fault option" where
  "run L s [] = (s, None)"
| "run L s (rel # rest) =
    (case body L s rel of
       (s', Some e) \<Rightarrow> (s', Some e)
     | (s', None) \<Rightarrow> run L s' rest)"

definition initial :: "filesystem \<Rightarrow> state" where
  "initial fs = \<lparr>files = fs, ordered_paths = ORDERED_PATHS, stdout = []\<rparr>"

definition main :: "runtime \<Rightarrow> filesystem \<Rightarrow> state \<times> fault option" where
  "main L fs = (let s = initial fs in run L s (ordered_paths s))"

text \<open>
  The exit status of the interpreter: 0 when \<^verbatim>\<open>main\<close> returns, 1 when an exception
  leaves it. The script never calls \<^verbatim>\<open>sys.exit\<close>.
\<close>

definition exit_status :: "state \<times> fault option \<Rightarrow> nat" where
  "exit_status r = (case snd r of None \<Rightarrow> 0 | Some _ \<Rightarrow> 1)"

subsection \<open>Vocabulary of the properties\<close>

text \<open>
  The lines of a stream: the texts between its newlines; what follows the last newline
  is a line when it is not empty.
\<close>

fun split_lines :: "str \<Rightarrow> str \<Rightarrow> str list" where
  "split_lines cur [] = (if cur = [] then [] else [cur])"
| "split_lines cur (c # cs) =
    (if c = newline then cur # split_lines [] cs else split_lines (cur @ [c]) cs)"

definition lines_of :: "str \<Rightarrow> str list" where
  "lines_of out = split_lines [] out"

text \<open>The entry has a manifest: \<^verbatim>\<open>package.json\<close> below it is a regular file.\<close>

definition has_manifest :: "filesystem \<Rightarrow> str \<Rightarrow> bool" where
  "has_manifest fs rel = (is_file fs (pkg_json rel) = Inr True)"

text \<open>The text that the loop body gives to \<^verbatim>\<open>print\<close> for a manifest that is an object.\<close>

definition line_text :: "runtime \<Rightarrow> (str \<times> json) list \<Rightarrow> str \<Rightarrow> str" where
  "line_text L kvs rel =
    format_value L (case map_of kvs (lit ''name'') of Some v \<Rightarrow> v | None \<Rightarrow> JString rel)
      @ lit ''|'' @ rel"

text \<open>
  The entry passes: the loop body ends for it without an exception. Its manifest path can
  be examined, and either is not a regular file, or is read, parses as an object and gives
  a text that standard output can encode.
\<close>

definition passes :: "runtime \<Rightarrow> filesystem \<Rightarrow> str \<Rightarrow> bool" where
  "passes L fs rel =
    (case fs (pkg_json rel) of
       Regular (Inr text) \<Rightarrow>
         (case json_loads L text of
            Inr (JObject kvs) \<Rightarrow> encode_error L (line_text L kvs rel) = None
          | _ \<Rightarrow> False)
     | Regular (Inl _) \<Rightarrow> False
     | Unreachable _ \<Rightarrow> False
     | _ \<Rightarrow> True)"

text \<open>The text of the entry, if the loop body gets to print one, contains no newline.\<close>

definition one_line :: "runtime \<Rightarrow> filesystem \<Rightarrow> str \<Rightarrow> bool" where
  "one_line L fs rel =
    (case fs (pkg_json rel) of
       Regular (Inr text) \<Rightarrow>
         (case json_loads L text of
            Inr (JObject kvs) \<Rightarrow> newline \<notin> set (line_text L kvs rel)
          | _ \<Rightarrow> True)
     | _ \<Rightarrow> True)"

text \<open>
  What the loop body does for an entry, as a function of the files alone: an exception,
  nothing, or one printed text. The function \<open>trace\<close> collects this over a list
  the way the loop does, and \<open>render\<close> is the stream that printing the texts gives.
\<close>

definition entry :: "runtime \<Rightarrow> filesystem \<Rightarrow> str \<Rightarrow> fault + str option" where
  "entry L fs rel =
    (case fs (pkg_json rel) of
       Regular (Inr text) \<Rightarrow>
         (case json_loads L text of
            Inl msg \<Rightarrow> Inl (ParseFault msg)
          | Inr (JObject kvs) \<Rightarrow>
              (case encode_error L (line_text L kvs rel) of
                 Some msg \<Rightarrow> Inl (UnicodeEncodeError msg)
               | None \<Rightarrow> Inr (Some (line_text L kvs rel)))
          | Inr _ \<Rightarrow> Inl AttributeError)
     | Regular (Inl msg) \<Rightarrow> Inl (ReadFault msg)
     | Unreachable msg \<Rightarrow> Inl (StatFault msg)
     | _ \<Rightarrow> Inr None)"

fun trace :: "runtime \<Rightarrow> filesystem \<Rightarrow> str list \<Rightarrow> str list \<times> fault option" where
  "trace L fs [] = ([], None)"
| "trace L fs (rel # rest) =
    (case entry L fs rel of
       Inl e \<Rightarrow> ([], Some e)
     | Inr None \<Rightarrow> trace L fs rest
     | Inr (Some l) \<Rightarrow> (l # fst (trace L fs rest), snd (trace L fs rest)))"

definition render :: "str list \<Rightarrow> str" where
  "render ts = concat (map (\<lambda>t. t @ [newline]) ts)"

text \<open>The part of a line behind its last bar, and paths that contain no bar.\<close>

definition line_path :: "str \<Rightarrow> str" where
  "line_path l = rev (takeWhile (\<lambda>c. c \<noteq> 124) (rev l))"

definition bar_free :: "str \<Rightarrow> bool" where
  "bar_free p = (124 \<notin> set p)"

text \<open>
  A parsed value is an object; the manifest of an entry, if the entry has one, can be
  read and parsed (to any value).
\<close>

definition is_object :: "json \<Rightarrow> bool" where
  "is_object v = (case v of JObject _ \<Rightarrow> True | _ \<Rightarrow> False)"

definition parses :: "runtime \<Rightarrow> filesystem \<Rightarrow> str \<Rightarrow> bool" where
  "parses L fs rel =
    (case fs (pkg_json rel) of
       Regular (Inr text) \<Rightarrow> (case json_loads L text of Inr _ \<Rightarrow> True | Inl _ \<Rightarrow> False)
     | Regular (Inl _) \<Rightarrow> False
     | _ \<Rightarrow> True)"

text \<open>The entries of a list in front of the first occurrence of \<open>p\<close>.\<close>

definition before :: "str \<Rightarrow> str list \<Rightarrow> str list" where
  "before p ps = takeWhile (\<lambda>q. q \<noteq> p) ps"




subsection \<open>Example environments\<close>

text \<open>
  The texts of the example manifests. In the last two the name is written with a JSON
  escape (code point 92 is the backslash): the lone surrogate U+D800, and a name with a
  newline in it.
\<close>

definition text_a :: str where
  \<open>text_a = lit ''{"name": "pkg-a"}''\<close>

definition text_b :: str where
  \<open>text_b = lit ''{"name": "pkg-b"}''\<close>

definition text_null :: str where
  \<open>text_null = lit ''{"name": null}''\<close>

definition text_seven :: str where
  \<open>text_seven = lit ''{"name": 7}''\<close>

definition text_empty_name :: str where
  \<open>text_empty_name = lit ''{"name": ""}''\<close>

definition text_no_name :: str where
  \<open>text_no_name = lit ''{"version": "1.0.0"}''\<close>

definition text_array :: str where
  "text_array = lit ''[]''"

definition text_bad :: str where
  "text_bad = lit ''not json''"

definition text_surrogate :: str where
  \<open>text_surrogate = lit ''{"name": "'' @ [92] @ lit ''ud800"}''\<close>

definition text_two_lines :: str where
  \<open>text_two_lines = lit ''{"name": "pkg-b|shareds/cache'' @ [92] @ lit ''nx"}''\<close>

text \<open>
  A runtime for the examples: \<^verbatim>\<open>json.loads\<close> on the texts above (any other text
  stands for one that the parser rejects at its first character), \<^verbatim>\<open>str\<close> on the
  empty containers, and standard output in UTF-8, which encodes every text without a
  surrogate. The messages of the encoder and of \<^verbatim>\<open>stat\<close> are shortened to their
  fixed part.
\<close>

definition sample_loads :: "str \<Rightarrow> str + json" where
  "sample_loads text =
    (if text = text_a then Inr (JObject [(lit ''name'', JString (lit ''pkg-a''))])
     else if text = text_b then Inr (JObject [(lit ''name'', JString (lit ''pkg-b''))])
     else if text = text_null then Inr (JObject [(lit ''name'', JNull)])
     else if text = text_seven then Inr (JObject [(lit ''name'', JInt 7)])
     else if text = text_empty_name then Inr (JObject [(lit ''name'', JString [])])
     else if text = text_no_name then Inr (JObject [(lit ''version'', JString (lit ''1.0.0''))])
     else if text = text_array then Inr (JArray [])
     else if text = text_surrogate then Inr (JObject [(lit ''name'', JString [55296])])
     else if text = text_two_lines
       then Inr (JObject [(lit ''name'',
                           JString (lit ''pkg-b|shareds/cache'' @ [newline] @ lit ''x''))])
     else Inl (lit ''Expecting value: line 1 column 1 (char 0)''))"

definition utf8_error :: "str \<Rightarrow> str option" where
  "utf8_error t =
    (if list_ex (\<lambda>c. 55296 \<le> c \<and> c \<le> 57343) t
     then Some (lit ''surrogates not allowed'') else None)"

definition sample_runtime :: runtime where
  "sample_runtime =
    \<lparr>json_loads = sample_loads,
     str_container = (\<lambda>v. case v of JObject _ \<Rightarrow> lit ''{}'' | _ \<Rightarrow> lit ''[]''),
     encode_error = utf8_error\<rparr>"

text \<open>A file system from a table of paths; every path outside the table is missing.\<close>

definition fs_of :: "(str \<times> node) list \<Rightarrow> filesystem" where
  "fs_of tbl path = (case map_of tbl path of Some n \<Rightarrow> n | None \<Rightarrow> Missing)"

text \<open>The manifest paths and the file systems of the examples.\<close>

definition common_json :: str where
  "common_json = lit ''shareds/common/package.json''"

definition cache_json :: str where
  "cache_json = lit ''shareds/cache/package.json''"

definition async_json :: str where
  "async_json = lit ''shareds/async/package.json''"

definition validator_json :: str where
  "validator_json = lit ''packages/validator/package.json''"

definition fs_a :: filesystem where
  "fs_a = fs_of [(common_json, Regular (Inr text_a))]"

definition fs_a_b :: filesystem where
  "fs_a_b = fs_of [(common_json, Regular (Inr text_a)), (cache_json, Regular (Inr text_b))]"

definition fs_a_directory :: filesystem where
  "fs_a_directory = fs_of [(common_json, Regular (Inr text_a)), (cache_json, Directory)]"



definition fs_b_no_name :: filesystem where
  "fs_b_no_name =
    fs_of [(cache_json, Regular (Inr text_b)), (validator_json, Regular (Inr text_no_name))]"

definition fs_array :: filesystem where
  "fs_array = fs_of [(common_json, Regular (Inr text_array))]"

definition fs_array_a :: filesystem where
  "fs_array_a =
    fs_of [(common_json, Regular (Inr text_array)), (cache_json, Regular (Inr text_a))]"

definition fs_a_array :: filesystem where
  "fs_a_array =
    fs_of [(common_json, Regular (Inr text_a)), (cache_json, Regular (Inr text_array))]"

definition fs_array_bad :: filesystem where
  "fs_array_bad =
    fs_of [(common_json, Regular (Inr text_array)), (cache_json, Regular (Inr text_bad))]"

definition fs_a_bad :: filesystem where
  "fs_a_bad = fs_of [(common_json, Regular (Inr text_a)), (cache_json, Regular (Inr text_bad))]"

definition fs_bad_array :: filesystem where
  "fs_bad_array =
    fs_of [(common_json, Regular (Inr text_bad)), (cache_json, Regular (Inr text_array))]"

definition fs_surrogate :: filesystem where
  "fs_surrogate = fs_of [(common_json, Regular (Inr text_surrogate))]"

definition fs_surrogate_a :: filesystem where
  "fs_surrogate_a =
    fs_of [(common_json, Regular (Inr text_surrogate)), (cache_json, Regular (Inr text_a))]"

definition fs_two_lines :: filesystem where
  "fs_two_lines = fs_of [(common_json, Regular (Inr text_two_lines))]"

definition fs_two_lines_b :: filesystem where
  "fs_two_lines_b =
    fs_of [(common_json, Regular (Inr text_two_lines)), (cache_json, Regular (Inr text_b))]"

definition fs_two_lines_directory :: filesystem where
  "fs_two_lines_directory =
    fs_of [(common_json, Regular (Inr text_two_lines)), (cache_json, Directory)]"

definition fs_two_lines_array :: filesystem where
  "fs_two_lines_array =
    fs_of [(common_json, Regular (Inr text_two_lines)), (cache_json, Regular (Inr text_array))]"

definition fs_unreachable :: filesystem where
  "fs_unreachable = fs_of [(cache_json, Unreachable (lit ''[Errno 13] Permission denied''))]"


section \<open>Properties\<close>

subsection \<open>The loop as a function of the files\<close>

lemma lit_bar: "lit ''|'' = [124]"
  by (simp add: lit_def)

lemma body_entry:
  "body L s rel =
    (case entry L (files s) rel of
       Inl e \<Rightarrow> (s, Some e)
     | Inr None \<Rightarrow> (s, None)
     | Inr (Some l) \<Rightarrow> (s\<lparr>stdout := stdout s @ l @ [newline]\<rparr>, None))"
  by (simp add: body_def entry_def is_file_def read_text_def loads_def dict_get_def
      print_def line_text_def
      split: node.splits sum.splits json.splits option.splits)

lemma run_trace:
  "run L s ps =
    (s\<lparr>stdout := stdout s @ render (fst (trace L (files s) ps))\<rparr>,
     snd (trace L (files s) ps))"
proof (induction ps arbitrary: s)
  case Nil
  show ?case by (simp add: render_def)
next
  case (Cons p ps)
  show ?case
  proof (cases "entry L (files s) p")
    case (Inl e)
    then show ?thesis by (simp add: body_entry render_def)
  next
    case (Inr o1)
    show ?thesis
    proof (cases o1)
      case None
      with Inr Cons show ?thesis by (simp add: body_entry)
    next
      case (Some l)
      with Inr Cons [of "s\<lparr>stdout := stdout s @ l @ [newline]\<rparr>"] show ?thesis
        by (simp add: body_entry render_def)
    qed
  qed
qed

lemma main_trace:
  "main L fs =
    (\<lparr>files = fs, ordered_paths = ORDERED_PATHS,
      stdout = render (fst (trace L fs ORDERED_PATHS))\<rparr>,
     snd (trace L fs ORDERED_PATHS))"
  by (simp add: main_def initial_def run_trace)

lemma split_lines_text:
  "newline \<notin> set t \<Longrightarrow> split_lines cur (t @ newline # rest) = (cur @ t) # split_lines [] rest"
  by (induction t arbitrary: cur) auto

lemma lines_of_render:
  "\<forall>t\<in>set ts. newline \<notin> set t \<Longrightarrow> lines_of (render ts) = ts"
proof (induction ts)
  case Nil
  show ?case by (simp add: lines_of_def render_def)
next
  case (Cons t ts)
  then have "newline \<notin> set t" and IH: "lines_of (render ts) = ts" by simp_all
  then show ?case
    using split_lines_text [of t "[]" "render ts"] by (simp add: lines_of_def render_def)
qed

lemma line_path_line: "bar_free p \<Longrightarrow> line_path (n @ 124 # p) = p"
  by (simp add: line_path_def bar_free_def takeWhile_append)

lemma entry_None_iff: "entry L fs q = Inr None \<longleftrightarrow> is_file fs (pkg_json q) = Inr False"
  by (simp add: entry_def is_file_def split: node.splits sum.splits json.splits option.splits)

lemma entry_fault_iff: "(\<exists>e. entry L fs q = Inl e) \<longleftrightarrow> \<not> passes L fs q"
  by (simp add: entry_def passes_def split: node.splits sum.splits json.splits option.splits)

lemma entry_Some:
  "entry L fs q = Inr (Some l) \<Longrightarrow>
   has_manifest fs q \<and> passes L fs q \<and> (\<exists>n. l = n @ lit ''|'' @ q) \<and>
   (one_line L fs q \<longrightarrow> newline \<notin> set l)"
  by (auto simp add: entry_def passes_def has_manifest_def is_file_def one_line_def line_text_def
      split: node.splits sum.splits json.splits option.splits)

lemma trace_fault_iff: "snd (trace L fs ps) = None \<longleftrightarrow> (\<forall>q\<in>set ps. passes L fs q)"
proof (induction ps)
  case Nil show ?case by simp
next
  case (Cons p ps)
  show ?case
  proof (cases "entry L fs p")
    case (Inl e)
    then have "\<not> passes L fs p" using entry_fault_iff by blast
    with Inl show ?thesis by simp
  next
    case (Inr o1)
    then have "passes L fs p" using entry_fault_iff [of L fs p] by simp
    with Inr Cons show ?thesis by (cases o1) simp_all
  qed
qed

lemma trace_line_paths:
  "\<forall>q\<in>set ps. bar_free q \<Longrightarrow>
   map line_path (fst (trace L fs ps)) = filter (has_manifest fs) (takeWhile (passes L fs) ps)"
proof (induction ps)
  case Nil show ?case by simp
next
  case (Cons p ps)
  then have IH: "map line_path (fst (trace L fs ps)) =
      filter (has_manifest fs) (takeWhile (passes L fs) ps)"
    and bf: "bar_free p" by simp_all
  show ?case
  proof (cases "entry L fs p")
    case (Inl e)
    then have "\<not> passes L fs p" using entry_fault_iff by blast
    with Inl show ?thesis by simp
  next
    case (Inr o1)
    then have wf: "passes L fs p" using entry_fault_iff [of L fs p] by simp
    show ?thesis
    proof (cases o1)
      case None
      with Inr have "\<not> has_manifest fs p"
        using entry_None_iff [of L fs p] by (simp add: has_manifest_def)
      with None Inr wf IH show ?thesis by simp
    next
      case (Some l)
      with Inr have e: "entry L fs p = Inr (Some l)" by simp
      from entry_Some [OF e] obtain n where "has_manifest fs p" "l = n @ lit ''|'' @ p" by blast
      with e wf IH bf show ?thesis by (simp add: line_path_line lit_bar)
    qed
  qed
qed

lemma trace_append:
  "trace L fs (xs @ ys) =
    (if snd (trace L fs xs) = None
     then (fst (trace L fs xs) @ fst (trace L fs ys), snd (trace L fs ys))
     else trace L fs xs)"
  by (induction xs) (auto split: sum.splits option.splits)

lemma trace_lines_entry:
  "l \<in> set (fst (trace L fs ps)) \<Longrightarrow> \<exists>q\<in>set ps. entry L fs q = Inr (Some l)"
  by (induction ps) (auto split: sum.splits option.splits)

lemma trace_length:
  "\<forall>q\<in>set ps. passes L fs q \<Longrightarrow>
   length (fst (trace L fs ps)) = length (filter (has_manifest fs) ps)"
proof (induction ps)
  case Nil show ?case by simp
next
  case (Cons p ps)
  then have wf: "passes L fs p"
    and IH: "length (fst (trace L fs ps)) = length (filter (has_manifest fs) ps)" by simp_all
  from wf obtain o1 where Inr: "entry L fs p = Inr o1"
    using entry_fault_iff [of L fs p] by (cases "entry L fs p") auto
  show ?case
  proof (cases o1)
    case None
    with Inr have "\<not> has_manifest fs p"
      using entry_None_iff [of L fs p] by (simp add: has_manifest_def)
    with None Inr IH show ?thesis by simp
  next
    case (Some l)
    with Inr have "has_manifest fs p" using entry_Some by blast
    with Some Inr IH show ?thesis by simp
  qed
qed

lemma trace_one_line:
  assumes "\<forall>q\<in>set ps. one_line L fs q"
  shows "\<forall>t\<in>set (fst (trace L fs ps)). newline \<notin> set t"
proof
  fix t assume "t \<in> set (fst (trace L fs ps))"
  then obtain q where q: "q \<in> set ps" and e: "entry L fs q = Inr (Some t)"
    using trace_lines_entry by blast
  from entry_Some [OF e] q assms show "newline \<notin> set t" by blast
qed

lemma main_lines:
  assumes "\<forall>q\<in>set ORDERED_PATHS. one_line L fs q"
  shows "lines_of (stdout (fst (main L fs))) = fst (trace L fs ORDERED_PATHS)"
  using lines_of_render [OF trace_one_line [OF assms]] by (simp add: main_trace)

lemma count_list_distinct: "distinct xs \<Longrightarrow> x \<in> set xs \<Longrightarrow> count_list xs x = 1"
  by (induction xs) (auto simp: count_list_0_iff)

lemma ORDERED_PATHS_distinct: "distinct ORDERED_PATHS"
  by (simp add: ORDERED_PATHS_def lit_def)

lemma ORDERED_PATHS_bar_free: "\<forall>q\<in>set ORDERED_PATHS. bar_free q"
  by (simp add: ORDERED_PATHS_def bar_free_def lit_def)


subsection \<open>The output of a whole run\<close>

lemma split_at_entry: "p \<in> set ps \<Longrightarrow> ps = before p ps @ p # tl (dropWhile (\<lambda>q. q \<noteq> p) ps)"
proof -
  assume p: "p \<in> set ps"
  let ?d = "dropWhile (\<lambda>q. q \<noteq> p) ps"
  from p have ne: "?d \<noteq> []" by (simp add: dropWhile_eq_Nil_conv)
  then have "\<not> (hd ?d \<noteq> p)" by (rule hd_dropWhile)
  then have "hd ?d = p" by simp
  with ne have "?d = p # tl ?d" by (cases ?d) simp_all
  moreover have "ps = takeWhile (\<lambda>q. q \<noteq> p) ps @ ?d" by simp
  ultimately show ?thesis unfolding before_def by simp
qed

lemma trace_reaches:
  assumes p: "p \<in> set ps" and wf: "\<forall>q\<in>set (before p ps). passes L fs q"
  shows "\<exists>ys. trace L fs ps =
      (fst (trace L fs (before p ps)) @ fst (trace L fs (p # ys)), snd (trace L fs (p # ys)))"
proof -
  let ?ys = "tl (dropWhile (\<lambda>q. q \<noteq> p) ps)"
  from wf have n: "snd (trace L fs (before p ps)) = None" by (simp add: trace_fault_iff)
  have "trace L fs ps = trace L fs (before p ps @ p # ?ys)"
    using split_at_entry [OF p] by simp
  also have "\<dots> = (fst (trace L fs (before p ps)) @ fst (trace L fs (p # ?ys)),
      snd (trace L fs (p # ?ys)))"
    using n by (simp add: trace_append del: trace.simps)
  finally show ?thesis by blast
qed

lemma text_of_entry:
  assumes p: "p \<in> set ORDERED_PATHS"
    and l: "n @ lit ''|'' @ p \<in> set (fst (trace L fs ORDERED_PATHS))"
  shows "entry L fs p = Inr (Some (n @ lit ''|'' @ p))"
proof -
  from l obtain q where q: "q \<in> set ORDERED_PATHS"
    and e: "entry L fs q = Inr (Some (n @ lit ''|'' @ p))"
    using trace_lines_entry by blast
  from entry_Some [OF e] obtain m where m: "n @ lit ''|'' @ p = m @ lit ''|'' @ q" by blast
  from p q have "bar_free p" "bar_free q" using ORDERED_PATHS_bar_free by blast+
  then have "line_path (n @ lit ''|'' @ p) = p" "line_path (m @ lit ''|'' @ q) = q"
    by (simp_all add: line_path_line lit_bar)
  with m have "q = p" by simp
  with e show ?thesis by simp
qed

lemma line_in_output:
  assumes p: "p \<in> set ORDERED_PATHS"
    and o: "\<forall>q\<in>set ORDERED_PATHS. one_line L fs q"
    and l: "n @ lit ''|'' @ p \<in> set (lines_of (stdout (fst (main L fs))))"
  shows "entry L fs p = Inr (Some (n @ lit ''|'' @ p))"
  using text_of_entry [OF p] l main_lines [OF o] by simp

lemma texts_distinct: "distinct (fst (trace L fs ORDERED_PATHS))"
proof -
  have "map line_path (fst (trace L fs ORDERED_PATHS)) =
      filter (has_manifest fs) (takeWhile (passes L fs) ORDERED_PATHS)"
    using ORDERED_PATHS_bar_free by (rule trace_line_paths)
  moreover have "distinct (filter (has_manifest fs) (takeWhile (passes L fs) ORDERED_PATHS))"
    using ORDERED_PATHS_distinct by (simp add: distinct_takeWhile)
  ultimately have "distinct (map line_path (fst (trace L fs ORDERED_PATHS)))" by simp
  then show ?thesis by (simp add: distinct_map)
qed

lemma texts_order: "subseq (map line_path (fst (trace L fs ORDERED_PATHS))) ORDERED_PATHS"
proof -
  have "map line_path (fst (trace L fs ORDERED_PATHS)) =
      filter (has_manifest fs) (takeWhile (passes L fs) ORDERED_PATHS)"
    using ORDERED_PATHS_bar_free by (rule trace_line_paths)
  moreover have "subseq (filter (has_manifest fs) (takeWhile (passes L fs) ORDERED_PATHS))
      (takeWhile (passes L fs) ORDERED_PATHS)" by simp
  moreover have "subseq (takeWhile (passes L fs) ORDERED_PATHS) ORDERED_PATHS"
    using takeWhile_is_prefix by (rule prefix_imp_subseq)
  ultimately show ?thesis by (simp only: subseq_order.order_trans)
qed

lemma reached_text_once:
  assumes p: "p \<in> set ORDERED_PATHS"
    and e: "entry L fs p = Inr (Some l)"
    and wf: "\<forall>q\<in>set (before p ORDERED_PATHS). passes L fs q"
  shows "count_list (fst (trace L fs ORDERED_PATHS)) l = 1"
proof -
  from trace_reaches [OF p wf] obtain ys where
    "trace L fs ORDERED_PATHS =
      (fst (trace L fs (before p ORDERED_PATHS)) @ fst (trace L fs (p # ys)),
       snd (trace L fs (p # ys)))" by blast
  then have "fst (trace L fs ORDERED_PATHS) =
       fst (trace L fs (before p ORDERED_PATHS)) @ fst (trace L fs (p # ys))"
    by simp
  with e have "l \<in> set (fst (trace L fs ORDERED_PATHS))" by simp
  with texts_distinct show ?thesis by (rule count_list_distinct)
qed

lemma first_fault:
  assumes p: "p \<in> set ORDERED_PATHS"
    and e: "entry L fs p = Inl x"
    and wf: "\<forall>q\<in>set (before p ORDERED_PATHS). passes L fs q"
  shows "snd (main L fs) = Some x"
proof -
  from trace_reaches [OF p wf] obtain ys where
    "trace L fs ORDERED_PATHS =
      (fst (trace L fs (before p ORDERED_PATHS)) @ fst (trace L fs (p # ys)),
       snd (trace L fs (p # ys)))" by blast
  then have "snd (trace L fs ORDERED_PATHS) = snd (trace L fs (p # ys))"
    by simp
  with e show ?thesis by (simp add: main_trace)
qed

lemma some_fault:
  assumes p: "p \<in> set ORDERED_PATHS" and e: "entry L fs p = Inl x"
  shows "snd (main L fs) \<noteq> None"
proof -
  from e have "\<not> passes L fs p" using entry_fault_iff by blast
  with p have "\<not> (\<forall>q\<in>set ORDERED_PATHS. passes L fs q)" by blast
  then show ?thesis by (simp add: main_trace trace_fault_iff)
qed

lemma write_changes: "s\<lparr>stdout := stdout s @ l @ [newline]\<rparr> \<noteq> s"
proof
  assume "s\<lparr>stdout := stdout s @ l @ [newline]\<rparr> = s"
  then have "stdout (s\<lparr>stdout := stdout s @ l @ [newline]\<rparr>) = stdout s" by simp
  then show False by simp
qed

lemma body_skip_iff: "body L s q = (s, None) \<longleftrightarrow> is_file (files s) (pkg_json q) = Inr False"
proof (cases "entry L (files s) q")
  case (Inl e)
  then have "entry L (files s) q \<noteq> Inr None" by simp
  then have "is_file (files s) (pkg_json q) \<noteq> Inr False" by (simp add: entry_None_iff)
  with Inl show ?thesis by (simp add: body_entry)
next
  case (Inr o1)
  show ?thesis
  proof (cases o1)
    case None
    with Inr show ?thesis using entry_None_iff [of L "files s" q] by (simp add: body_entry)
  next
    case (Some l)
    with Inr have "has_manifest (files s) q" using entry_Some by blast
    with Inr Some show ?thesis by (simp add: body_entry has_manifest_def write_changes)
  qed
qed

lemma trace_cong: "\<forall>q\<in>set ps. entry L fs q = entry L fs' q \<Longrightarrow> trace L fs ps = trace L fs' ps"
  by (induction ps) (simp_all split: sum.splits option.splits)

lemma entry_directory_as_missing:
  assumes "fs (pkg_json p) = Directory"
  shows "entry L (fs(pkg_json p := Missing)) q = entry L fs q"
  using assms by (simp add: entry_def)

subsection \<open>Decimal numerals\<close>







subsection \<open>Evaluating the examples\<close>

text \<open>The equations that evaluate a run in an example environment.\<close>

lemmas sample_simps =
  main_trace ORDERED_PATHS_def entry_def fs_of_def pkg_json_def line_text_def
  sample_runtime_def sample_loads_def utf8_error_def format_value_def lit_def newline_def
  text_a_def text_b_def text_null_def text_seven_def text_empty_name_def
  text_no_name_def text_array_def text_bad_def text_surrogate_def text_two_lines_def
  common_json_def cache_json_def validator_json_def async_json_def render_def lines_of_def


lemmas vocabulary_simps =
  passes_def one_line_def parses_def has_manifest_def is_file_def before_def

subsection \<open>Effects of a run\<close>

text \<open>
  C7. A run writes to standard output and does nothing else: whatever the runtime, the
  start state and the list, the loop leaves the files and the module global as they
  were and only appends to standard output; so \<open>main\<close> ends with the files it was
  started with and with \<open>ORDERED_PATHS\<close> unchanged.
\<close>
theorem run_writes_stdout_only:
  "files (fst (run L s ps)) = files s \<and>
   ordered_paths (fst (run L s ps)) = ordered_paths s \<and>
   prefix (stdout s) (stdout (fst (run L s ps))) \<and>
   files (fst (main L fs)) = fs \<and>
   ordered_paths (fst (main L fs)) = ORDERED_PATHS"
  by (simp add: run_trace main_trace)

subsection \<open>Entries without a manifest\<close>

text \<open>
  C2 as stated does not hold. In the first file system \<open>shareds/cache\<close> has no manifest,
  but the name in the manifest of \<open>shareds/common\<close> contains a newline, and what it
  prints in front of the newline is the line \<open>pkg-b|shareds/cache\<close>: the output has a
  line for an entry without a manifest. In the second file system the manifest path of
  \<open>shareds/cache\<close> cannot be examined (nothing need be there, its directory is not
  searchable): \<^verbatim>\<open>is_file\<close> raises and the run ends with that error.
\<close>
theorem missing_manifest_counterexample:
  "lit ''shareds/cache'' \<in> set ORDERED_PATHS \<and>
   fs_two_lines (pkg_json (lit ''shareds/cache'')) = Missing \<and>
   lit ''pkg-b|shareds/cache'' \<in> set (lines_of (stdout (fst (main sample_runtime fs_two_lines)))) \<and>
   fs_unreachable (pkg_json (lit ''shareds/cache'')) =
     Unreachable (lit ''[Errno 13] Permission denied'') \<and>
   main sample_runtime fs_unreachable =
     (initial fs_unreachable, Some (StatFault (lit ''[Errno 13] Permission denied'')))"
  by (simp add: sample_simps fs_two_lines_def fs_unreachable_def initial_def)

text \<open>
  C2, amended. For an entry \<open>p\<close> of \<open>ORDERED_PATHS\<close> whose \<^verbatim>\<open>package.json\<close> the
  file system reports as missing, \<^verbatim>\<open>is_file\<close> is false, the loop body returns the
  state unchanged and without an exception, and the loop goes on with the rest of the
  list. When no text that an entry prints contains a newline, the output of the run has
  no line \<open>name|p\<close>, whatever the name.
\<close>
theorem missing_manifest_skipped:
  assumes "p \<in> set ORDERED_PATHS" and "files s (pkg_json p) = Missing"
  shows "is_file (files s) (pkg_json p) = Inr False \<and>
         body L s p = (s, None) \<and>
         run L s (p # rest) = run L s rest \<and>
         ((\<forall>q\<in>set ORDERED_PATHS. one_line L (files s) q) \<longrightarrow>
            n @ lit ''|'' @ p \<notin> set (lines_of (stdout (fst (main L (files s))))))"
proof -
  from assms(2) have e: "entry L (files s) p = Inr None"
    by (simp add: entry_def)
  then have b: "body L s p = (s, None)" by (simp add: body_entry)
  moreover from b have "run L s (p # rest) = run L s rest" by simp
  moreover have "(\<forall>q\<in>set ORDERED_PATHS. one_line L (files s) q) \<longrightarrow>
            n @ lit ''|'' @ p \<notin> set (lines_of (stdout (fst (main L (files s)))))"
    using line_in_output [OF assms(1), of L "files s" n] e by auto
  moreover have "is_file (files s) (pkg_json p) = Inr False"
    using assms(2) by (simp add: is_file_def)
  ultimately show ?thesis by blast
qed

theorem missing_manifest_skipped_witness:
  "lit ''shareds/cache'' \<in> set ORDERED_PATHS \<and>
   files (initial fs_a) (pkg_json (lit ''shareds/cache'')) = Missing \<and>
   list_all (one_line sample_runtime fs_a) ORDERED_PATHS \<and>
   body sample_runtime (initial fs_a) (lit ''shareds/cache'') = (initial fs_a, None) \<and>
   lit ''pkg-a|shareds/cache'' \<notin> set (lines_of (stdout (fst (main sample_runtime fs_a)))) \<and>
   lines_of (stdout (fst (main sample_runtime fs_a))) = [lit ''pkg-a|shareds/common'']"
proof -
  have h1: "lit ''shareds/cache'' \<in> set ORDERED_PATHS" by (simp add: ORDERED_PATHS_def)
  have h2: "files (initial fs_a) (pkg_json (lit ''shareds/cache'')) = Missing"
    by (simp add: initial_def fs_a_def fs_of_def pkg_json_def lit_def common_json_def)
  have h3: "list_all (one_line sample_runtime fs_a) ORDERED_PATHS"
    by (simp add: sample_simps vocabulary_simps fs_a_def)
  have m: "lines_of (stdout (fst (main sample_runtime fs_a))) = [lit ''pkg-a|shareds/common'']"
    by (simp add: sample_simps fs_a_def)
  from missing_manifest_skipped [OF h1 h2, of sample_runtime "[]" "lit ''pkg-a''"] h3
  have "body sample_runtime (initial fs_a) (lit ''shareds/cache'') = (initial fs_a, None)"
    and "lit ''pkg-a'' @ lit ''|'' @ lit ''shareds/cache'' \<notin>
      set (lines_of (stdout (fst (main sample_runtime fs_a))))"
    by (simp_all add: initial_def list_all_iff)
  moreover have "lit ''pkg-a'' @ lit ''|'' @ lit ''shareds/cache'' = lit ''pkg-a|shareds/cache''"
    by (simp add: lit_def)
  ultimately show ?thesis using h1 h2 h3 m by simp
qed

text \<open>
  C9 as stated does not hold. In the first file system the manifest path of
  \<open>shareds/cache\<close> is a directory, but the name in the manifest of \<open>shareds/common\<close>
  contains a newline and prints the line \<open>pkg-b|shareds/cache\<close>. In the second the
  manifest path of \<open>shareds/cache\<close> cannot be examined, whatever is there:
  \<^verbatim>\<open>is_file\<close> raises and the run ends with that error.
\<close>
theorem directory_manifest_counterexample:
  "lit ''shareds/cache'' \<in> set ORDERED_PATHS \<and>
   fs_two_lines_directory (pkg_json (lit ''shareds/cache'')) = Directory \<and>
   lit ''pkg-b|shareds/cache'' \<in>
     set (lines_of (stdout (fst (main sample_runtime fs_two_lines_directory)))) \<and>
   fs_unreachable (pkg_json (lit ''shareds/cache'')) =
     Unreachable (lit ''[Errno 13] Permission denied'') \<and>
   snd (main sample_runtime fs_unreachable) =
     Some (StatFault (lit ''[Errno 13] Permission denied''))"
  by (simp add: sample_simps fs_two_lines_directory_def fs_unreachable_def)

text \<open>
  C9, amended. For an entry \<open>p\<close> of \<open>ORDERED_PATHS\<close> whose \<^verbatim>\<open>package.json\<close> the
  file system reports as a directory, \<^verbatim>\<open>is_file\<close> is false, the loop body returns
  the state unchanged and without an exception, and the loop goes on with the rest of the
  list. The run writes and raises exactly what it does when that path is missing
  instead. When no text that an entry prints contains a newline, the output of the run
  has no line \<open>name|p\<close>.
\<close>
theorem directory_manifest_skipped:
  assumes "p \<in> set ORDERED_PATHS" and "files s (pkg_json p) = Directory"
  shows "is_file (files s) (pkg_json p) = Inr False \<and>
         body L s p = (s, None) \<and>
         run L s (p # rest) = run L s rest \<and>
         ((\<forall>q\<in>set ORDERED_PATHS. one_line L (files s) q) \<longrightarrow>
            n @ lit ''|'' @ p \<notin> set (lines_of (stdout (fst (main L (files s)))))) \<and>
         stdout (fst (main L ((files s)(pkg_json p := Missing)))) =
           stdout (fst (main L (files s))) \<and>
         snd (main L ((files s)(pkg_json p := Missing))) = snd (main L (files s))"
proof -
  from assms(2) have e: "entry L (files s) p = Inr None"
    by (simp add: entry_def)
  then have b: "body L s p = (s, None)" by (simp add: body_entry)
  moreover from b have "run L s (p # rest) = run L s rest" by simp
  moreover have "(\<forall>q\<in>set ORDERED_PATHS. one_line L (files s) q) \<longrightarrow>
            n @ lit ''|'' @ p \<notin> set (lines_of (stdout (fst (main L (files s)))))"
    using line_in_output [OF assms(1), of L "files s" n] e by auto
  moreover have "is_file (files s) (pkg_json p) = Inr False"
    using assms(2) by (simp add: is_file_def)
  moreover have "trace L ((files s)(pkg_json p := Missing)) ORDERED_PATHS =
      trace L (files s) ORDERED_PATHS"
    using assms(2) by (intro trace_cong ballI) (rule entry_directory_as_missing)
  then have "stdout (fst (main L ((files s)(pkg_json p := Missing)))) =
           stdout (fst (main L (files s)))"
    and "snd (main L ((files s)(pkg_json p := Missing))) = snd (main L (files s))"
    by (simp_all add: main_trace)
  ultimately show ?thesis by blast
qed

theorem directory_manifest_skipped_witness:
  "lit ''shareds/cache'' \<in> set ORDERED_PATHS \<and>
   files (initial fs_a_directory) (pkg_json (lit ''shareds/cache'')) = Directory \<and>
   list_all (one_line sample_runtime fs_a_directory) ORDERED_PATHS \<and>
   body sample_runtime (initial fs_a_directory) (lit ''shareds/cache'') =
     (initial fs_a_directory, None) \<and>
   lit ''pkg-a|shareds/cache'' \<notin>
     set (lines_of (stdout (fst (main sample_runtime fs_a_directory)))) \<and>
   main sample_runtime fs_a_directory =
     (\<lparr>files = fs_a_directory, ordered_paths = ORDERED_PATHS,
       stdout = lit ''pkg-a|shareds/common'' @ [newline]\<rparr>, None)"
proof -
  have h1: "lit ''shareds/cache'' \<in> set ORDERED_PATHS" by (simp add: ORDERED_PATHS_def)
  have h2: "files (initial fs_a_directory) (pkg_json (lit ''shareds/cache'')) = Directory"
    by (simp add: initial_def fs_a_directory_def fs_of_def pkg_json_def lit_def
        common_json_def cache_json_def)
  have h3: "list_all (one_line sample_runtime fs_a_directory) ORDERED_PATHS"
    by (simp add: sample_simps vocabulary_simps fs_a_directory_def)
  have m: "main sample_runtime fs_a_directory =
     (\<lparr>files = fs_a_directory, ordered_paths = ORDERED_PATHS,
       stdout = lit ''pkg-a|shareds/common'' @ [newline]\<rparr>, None)"
    by (simp add: sample_simps fs_a_directory_def)
  from directory_manifest_skipped [OF h1 h2, of sample_runtime "[]" "lit ''pkg-a''"] h3
  have "body sample_runtime (initial fs_a_directory) (lit ''shareds/cache'') =
      (initial fs_a_directory, None)"
    and "lit ''pkg-a'' @ lit ''|'' @ lit ''shareds/cache'' \<notin>
      set (lines_of (stdout (fst (main sample_runtime fs_a_directory))))"
    by (simp_all add: initial_def list_all_iff)
  moreover have "lit ''pkg-a'' @ lit ''|'' @ lit ''shareds/cache'' = lit ''pkg-a|shareds/cache''"
    by (simp add: lit_def)
  ultimately show ?thesis using h1 h2 h3 m by simp
qed


subsection \<open>The printed name\<close>







subsection \<open>The lines of a run\<close>

text \<open>
  C1 as stated does not hold, in three ways. In each file system the manifest of
  \<open>shareds/cache\<close> parses as an object with a name. In the first, the manifest of
  \<open>shareds/common\<close>, which comes first, is the JSON array \<^verbatim>\<open>[]\<close>: \<^verbatim>\<open>get\<close> raises
  there and nothing is printed. In the second, the name of \<open>shareds/common\<close> is a lone
  surrogate: \<^verbatim>\<open>print\<close> raises there and nothing is printed. In the third, the name of
  \<open>shareds/common\<close> contains a newline and prints the line \<open>pkg-b|shareds/cache\<close>,
  which the output then has twice.
\<close>
theorem named_manifest_counterexample:
  "lit ''shareds/cache'' \<in> set ORDERED_PATHS \<and>
   fs_array_a (pkg_json (lit ''shareds/cache'')) = Regular (Inr text_a) \<and>
   fs_surrogate_a (pkg_json (lit ''shareds/cache'')) = Regular (Inr text_a) \<and>
   json_loads sample_runtime text_a = Inr (JObject [(lit ''name'', JString (lit ''pkg-a''))]) \<and>
   main sample_runtime fs_array_a = (initial fs_array_a, Some AttributeError) \<and>
   count_list (lines_of (stdout (fst (main sample_runtime fs_array_a))))
     (lit ''pkg-a|shareds/cache'') = 0 \<and>
   main sample_runtime fs_surrogate_a =
     (initial fs_surrogate_a, Some (UnicodeEncodeError (lit ''surrogates not allowed''))) \<and>
   count_list (lines_of (stdout (fst (main sample_runtime fs_surrogate_a))))
     (lit ''pkg-a|shareds/cache'') = 0 \<and>
   fs_two_lines_b (pkg_json (lit ''shareds/cache'')) = Regular (Inr text_b) \<and>
   json_loads sample_runtime text_b = Inr (JObject [(lit ''name'', JString (lit ''pkg-b''))]) \<and>
   lines_of (stdout (fst (main sample_runtime fs_two_lines_b))) =
     [lit ''pkg-b|shareds/cache'', lit ''x|shareds/common'', lit ''pkg-b|shareds/cache''] \<and>
   count_list (lines_of (stdout (fst (main sample_runtime fs_two_lines_b))))
     (lit ''pkg-b|shareds/cache'') = 2"
  by (simp add: sample_simps initial_def fs_array_a_def fs_surrogate_a_def fs_two_lines_b_def)

text \<open>
  C1, amended. Let \<open>p\<close> be an entry of \<open>ORDERED_PATHS\<close> whose manifest is read and parses
  as an object with the key \<^verbatim>\<open>name\<close>, and whose text \<open>name|p\<close> standard output can
  encode. When every entry in front of \<open>p\<close> passes (its manifest path can be examined,
  and is not a regular file or is read, parses as an object and gives a text that can be
  encoded), and no text that an entry prints contains a newline, the output has the line
  \<open>name|p\<close> exactly once, and the paths of the lines of the output, in their order, are
  a subsequence of \<open>ORDERED_PATHS\<close>; the path of the line \<open>name|p\<close> is \<open>p\<close>.
\<close>
theorem named_manifest_one_line:
  assumes "p \<in> set ORDERED_PATHS"
    and "fs (pkg_json p) = Regular (Inr text)"
    and "json_loads L text = Inr (JObject kvs)"
    and "map_of kvs (lit ''name'') = Some v"
    and "encode_error L (format_value L v @ lit ''|'' @ p) = None"
    and "\<forall>q\<in>set (before p ORDERED_PATHS). passes L fs q"
    and "\<forall>q\<in>set ORDERED_PATHS. one_line L fs q"
  shows "count_list (lines_of (stdout (fst (main L fs)))) (format_value L v @ lit ''|'' @ p) = 1 \<and>
         subseq (map line_path (lines_of (stdout (fst (main L fs))))) ORDERED_PATHS \<and>
         line_path (format_value L v @ lit ''|'' @ p) = p"
proof -
  from assms(2-5) have e: "entry L fs p = Inr (Some (format_value L v @ lit ''|'' @ p))"
    by (simp add: entry_def line_text_def)
  have l: "lines_of (stdout (fst (main L fs))) = fst (trace L fs ORDERED_PATHS)"
    using assms(7) by (rule main_lines)
  have "count_list (fst (trace L fs ORDERED_PATHS)) (format_value L v @ lit ''|'' @ p) = 1"
    using assms(1) e assms(6) by (rule reached_text_once)
  moreover have "bar_free p" using assms(1) ORDERED_PATHS_bar_free by blast
  then have "line_path (format_value L v @ lit ''|'' @ p) = p"
    by (simp add: line_path_line lit_bar)
  ultimately show ?thesis using texts_order [of L fs] l by simp
qed

theorem named_manifest_one_line_witness:
  "lit ''shareds/cache'' \<in> set ORDERED_PATHS \<and>
   fs_a_b (pkg_json (lit ''shareds/cache'')) = Regular (Inr text_b) \<and>
   json_loads sample_runtime text_b = Inr (JObject [(lit ''name'', JString (lit ''pkg-b''))]) \<and>
   map_of [(lit ''name'', JString (lit ''pkg-b''))] (lit ''name'') = Some (JString (lit ''pkg-b'')) \<and>
   encode_error sample_runtime (lit ''pkg-b|shareds/cache'') = None \<and>
   list_all (passes sample_runtime fs_a_b) (before (lit ''shareds/cache'') ORDERED_PATHS) \<and>
   list_all (one_line sample_runtime fs_a_b) ORDERED_PATHS \<and>
   count_list (lines_of (stdout (fst (main sample_runtime fs_a_b))))
     (lit ''pkg-b|shareds/cache'') = 1 \<and>
   lines_of (stdout (fst (main sample_runtime fs_a_b))) =
     [lit ''pkg-a|shareds/common'', lit ''pkg-b|shareds/cache'']"
proof -
  have h1: "lit ''shareds/cache'' \<in> set ORDERED_PATHS" by (simp add: ORDERED_PATHS_def)
  have h2: "fs_a_b (pkg_json (lit ''shareds/cache'')) = Regular (Inr text_b)"
    by (simp add: fs_a_b_def fs_of_def pkg_json_def lit_def common_json_def cache_json_def)
  have h3: "json_loads sample_runtime text_b =
      Inr (JObject [(lit ''name'', JString (lit ''pkg-b''))])"
    by (simp add: sample_simps)
  have h4: "map_of [(lit ''name'', JString (lit ''pkg-b''))] (lit ''name'') =
      Some (JString (lit ''pkg-b''))" by simp
  have h5: "encode_error sample_runtime (lit ''pkg-b|shareds/cache'') = None"
    by (simp add: sample_simps)
  have h6: "list_all (passes sample_runtime fs_a_b) (before (lit ''shareds/cache'') ORDERED_PATHS)"
    by (simp add: sample_simps vocabulary_simps fs_a_b_def)
  have h7: "list_all (one_line sample_runtime fs_a_b) ORDERED_PATHS"
    by (simp add: sample_simps vocabulary_simps fs_a_b_def)
  have t: "format_value sample_runtime (JString (lit ''pkg-b'')) @ lit ''|'' @ lit ''shareds/cache'' =
      lit ''pkg-b|shareds/cache''"
    by (simp add: format_value_def lit_def)
  have h5': "encode_error sample_runtime
      (format_value sample_runtime (JString (lit ''pkg-b'')) @ lit ''|'' @ lit ''shareds/cache'') = None"
    using h5 by (simp only: t)
  have h6': "\<forall>q\<in>set (before (lit ''shareds/cache'') ORDERED_PATHS). passes sample_runtime fs_a_b q"
    using h6 by (simp add: list_all_iff)
  have h7': "\<forall>q\<in>set ORDERED_PATHS. one_line sample_runtime fs_a_b q"
    using h7 by (simp add: list_all_iff)
  have m: "lines_of (stdout (fst (main sample_runtime fs_a_b))) =
     [lit ''pkg-a|shareds/common'', lit ''pkg-b|shareds/cache'']"
    by (simp add: sample_simps fs_a_b_def)
  from named_manifest_one_line [OF h1 h2 h3 h4 h5' h6' h7']
  have "count_list (lines_of (stdout (fst (main sample_runtime fs_a_b))))
      (format_value sample_runtime (JString (lit ''pkg-b'')) @ lit ''|'' @ lit ''shareds/cache'') = 1"
    by blast
  then have "count_list (lines_of (stdout (fst (main sample_runtime fs_a_b))))
      (lit ''pkg-b|shareds/cache'') = 1"
    by (simp only: t)
  with h1 h2 h3 h4 h5 h6 h7 m show ?thesis by blast
qed

text \<open>
  C4 as stated does not hold, in three ways. In each file system only \<open>shareds/common\<close>
  has a manifest, and it parses. When it is the JSON array \<^verbatim>\<open>[]\<close>, \<^verbatim>\<open>get\<close> raises
  and the output has no line; when its name is a lone surrogate, \<^verbatim>\<open>print\<close> raises
  and the output has no line; when its name contains a newline, the output has two
  lines.
\<close>
theorem line_count_counterexample:
  "list_all (parses sample_runtime fs_array) ORDERED_PATHS \<and>
   length (lines_of (stdout (fst (main sample_runtime fs_array)))) = 0 \<and>
   length (filter (has_manifest fs_array) ORDERED_PATHS) = 1 \<and>
   list_all (parses sample_runtime fs_surrogate) ORDERED_PATHS \<and>
   length (lines_of (stdout (fst (main sample_runtime fs_surrogate)))) = 0 \<and>
   length (filter (has_manifest fs_surrogate) ORDERED_PATHS) = 1 \<and>
   list_all (parses sample_runtime fs_two_lines) ORDERED_PATHS \<and>
   length (lines_of (stdout (fst (main sample_runtime fs_two_lines)))) = 2 \<and>
   length (filter (has_manifest fs_two_lines) ORDERED_PATHS) = 1"
  by (simp add: sample_simps vocabulary_simps fs_array_def fs_surrogate_def fs_two_lines_def)

text \<open>
  C4, amended. When every entry of \<open>ORDERED_PATHS\<close> passes (its manifest path can be
  examined, and is not a regular file or is read, parses as an object and gives a text
  that standard output can encode) and no text that an entry prints contains a newline,
  the number of lines of the output is the number of entries that have a manifest file.
\<close>
theorem line_count:
  assumes "\<forall>q\<in>set ORDERED_PATHS. passes L fs q"
    and "\<forall>q\<in>set ORDERED_PATHS. one_line L fs q"
  shows "length (lines_of (stdout (fst (main L fs)))) =
         length (filter (has_manifest fs) ORDERED_PATHS)"
  using trace_length [OF assms(1)] main_lines [OF assms(2)] by simp

theorem line_count_witness:
  "list_all (passes sample_runtime fs_b_no_name) ORDERED_PATHS \<and>
   list_all (one_line sample_runtime fs_b_no_name) ORDERED_PATHS \<and>
   length (lines_of (stdout (fst (main sample_runtime fs_b_no_name)))) = 2 \<and>
   length (filter (has_manifest fs_b_no_name) ORDERED_PATHS) = 2"
proof -
  have h1: "list_all (passes sample_runtime fs_b_no_name) ORDERED_PATHS"
    by (simp add: sample_simps vocabulary_simps fs_b_no_name_def)
  have h2: "list_all (one_line sample_runtime fs_b_no_name) ORDERED_PATHS"
    by (simp add: sample_simps vocabulary_simps fs_b_no_name_def)
  have n: "length (filter (has_manifest fs_b_no_name) ORDERED_PATHS) = 2"
    by (simp add: sample_simps vocabulary_simps fs_b_no_name_def)
  from h1 h2 have "\<forall>q\<in>set ORDERED_PATHS. passes sample_runtime fs_b_no_name q"
    and "\<forall>q\<in>set ORDERED_PATHS. one_line sample_runtime fs_b_no_name q"
    by (simp_all add: list_all_iff)
  from line_count [OF this] n h1 h2 show ?thesis by simp
qed

subsection \<open>Exceptions and the exit status\<close>

text \<open>
  C6 as stated does not hold, in three ways; no manifest is malformed in any of them. The
  manifest of \<open>shareds/cache\<close> is the JSON array \<^verbatim>\<open>[]\<close>: the run prints the first
  line, raises \<^verbatim>\<open>AttributeError\<close> and exits with status 1. The name of
  \<open>shareds/common\<close> is a lone surrogate: \<^verbatim>\<open>print\<close> raises and the status is 1. The
  manifest path of \<open>shareds/cache\<close> cannot be examined: \<^verbatim>\<open>is_file\<close> raises and the
  status is 1.
\<close>
theorem exit_status_counterexample:
  "list_all (parses sample_runtime fs_a_array) ORDERED_PATHS \<and>
   main sample_runtime fs_a_array =
     ((initial fs_a_array)\<lparr>stdout := lit ''pkg-a|shareds/common'' @ [newline]\<rparr>,
      Some AttributeError) \<and>
   exit_status (main sample_runtime fs_a_array) = 1 \<and>
   list_all (parses sample_runtime fs_surrogate) ORDERED_PATHS \<and>
   snd (main sample_runtime fs_surrogate) =
     Some (UnicodeEncodeError (lit ''surrogates not allowed'')) \<and>
   exit_status (main sample_runtime fs_surrogate) = 1 \<and>
   list_all (parses sample_runtime fs_unreachable) ORDERED_PATHS \<and>
   snd (main sample_runtime fs_unreachable) =
     Some (StatFault (lit ''[Errno 13] Permission denied'')) \<and>
   exit_status (main sample_runtime fs_unreachable) = 1"
  by (simp add: sample_simps vocabulary_simps initial_def exit_status_def
      fs_a_array_def fs_surrogate_def fs_unreachable_def)

text \<open>
  C6, amended. No exception leaves \<open>main\<close> exactly when every entry of
  \<open>ORDERED_PATHS\<close> passes (its manifest path can be examined, and is not a regular file
  or is read, parses as an object and gives a text that standard output can encode); the
  exit status is 0 in that case and 1 otherwise.
\<close>
theorem exit_status_zero_iff:
  "(snd (main L fs) = None \<longleftrightarrow> (\<forall>q\<in>set ORDERED_PATHS. passes L fs q)) \<and>
   exit_status (main L fs) = (if \<forall>q\<in>set ORDERED_PATHS. passes L fs q then 0 else 1)"
proof -
  have "snd (main L fs) = None \<longleftrightarrow> (\<forall>q\<in>set ORDERED_PATHS. passes L fs q)"
    by (simp add: main_trace trace_fault_iff)
  then show ?thesis by (auto simp: exit_status_def split: option.splits)
qed

theorem exit_status_zero_iff_witness:
  "list_all (passes sample_runtime fs_a_directory) ORDERED_PATHS \<and>
   exit_status (main sample_runtime fs_a_directory) = 0 \<and>
   snd (main sample_runtime fs_a_directory) = None"
proof -
  have h: "list_all (passes sample_runtime fs_a_directory) ORDERED_PATHS"
    by (simp add: sample_simps vocabulary_simps fs_a_directory_def)
  then have h': "\<forall>q\<in>set ORDERED_PATHS. passes sample_runtime fs_a_directory q"
    by (simp add: list_all_iff)
  note r = exit_status_zero_iff [of sample_runtime fs_a_directory]
  from r h' have z: "exit_status (main sample_runtime fs_a_directory) = 0" by simp
  from r h' have "snd (main sample_runtime fs_a_directory) = None" by blast
  with h z show ?thesis by blast
qed

text \<open>
  C5 as stated does not hold, in two ways. The manifest of \<open>shareds/cache\<close> is
  malformed, but that of \<open>shareds/common\<close>, which comes first, is the JSON array
  \<^verbatim>\<open>[]\<close>: the run fails with \<^verbatim>\<open>AttributeError\<close>, which is not a fault of the
  parsing layer. And a missing manifest is not the only condition that is handled: a
  manifest path that is a directory is skipped without an exception, too.
\<close>
theorem parse_fault_counterexample:
  "lit ''shareds/cache'' \<in> set ORDERED_PATHS \<and>
   fs_array_bad (pkg_json (lit ''shareds/cache'')) = Regular (Inr text_bad) \<and>
   json_loads sample_runtime text_bad = Inl (lit ''Expecting value: line 1 column 1 (char 0)'') \<and>
   snd (main sample_runtime fs_array_bad) = Some AttributeError \<and>
   fs_a_directory (pkg_json (lit ''shareds/cache'')) = Directory \<and>
   body sample_runtime (initial fs_a_directory) (lit ''shareds/cache'') =
     (initial fs_a_directory, None)"
  by (simp add: sample_simps initial_def fs_array_bad_def fs_a_directory_def body_entry)

text \<open>
  C5, amended. For an entry \<open>p\<close> of \<open>ORDERED_PATHS\<close> whose manifest is read and rejected
  by the parser, \<open>loads\<close> and the loop body end with the parser's exception, message
  unchanged, and nothing is written; the run fails; and when every entry in front of
  \<open>p\<close> passes, the run fails with that exception. The loop body returns without output
  and without an exception exactly when \<^verbatim>\<open>is_file\<close> is false, that is, when the
  manifest path is missing or not a regular file: nothing else is handled.
\<close>
theorem parse_fault_propagates:
  assumes "p \<in> set ORDERED_PATHS"
    and "files s (pkg_json p) = Regular (Inr text)"
    and "json_loads L text = Inl msg"
  shows "loads L text = Inl (ParseFault msg) \<and>
         body L s p = (s, Some (ParseFault msg)) \<and>
         snd (main L (files s)) \<noteq> None \<and>
         ((\<forall>q\<in>set (before p ORDERED_PATHS). passes L (files s) q) \<longrightarrow>
            snd (main L (files s)) = Some (ParseFault msg)) \<and>
         (body L s q = (s, None) \<longleftrightarrow> is_file (files s) (pkg_json q) = Inr False)"
proof -
  from assms(2,3) have e: "entry L (files s) p = Inl (ParseFault msg)"
    by (simp add: entry_def)
  then have "body L s p = (s, Some (ParseFault msg))" by (simp add: body_entry)
  moreover have "snd (main L (files s)) \<noteq> None" using assms(1) e by (rule some_fault)
  moreover have "(\<forall>q\<in>set (before p ORDERED_PATHS). passes L (files s) q) \<longrightarrow>
            snd (main L (files s)) = Some (ParseFault msg)"
    using first_fault [OF assms(1) e] by blast
  moreover have "loads L text = Inl (ParseFault msg)" using assms(3) by (simp add: loads_def)
  ultimately show ?thesis using body_skip_iff by blast
qed

theorem parse_fault_propagates_witness:
  "lit ''shareds/cache'' \<in> set ORDERED_PATHS \<and>
   files (initial fs_a_bad) (pkg_json (lit ''shareds/cache'')) = Regular (Inr text_bad) \<and>
   json_loads sample_runtime text_bad = Inl (lit ''Expecting value: line 1 column 1 (char 0)'') \<and>
   list_all (passes sample_runtime fs_a_bad) (before (lit ''shareds/cache'') ORDERED_PATHS) \<and>
   body sample_runtime (initial fs_a_bad) (lit ''shareds/cache'') =
     (initial fs_a_bad,
      Some (ParseFault (lit ''Expecting value: line 1 column 1 (char 0)''))) \<and>
   snd (main sample_runtime fs_a_bad) =
     Some (ParseFault (lit ''Expecting value: line 1 column 1 (char 0)'')) \<and>
   lines_of (stdout (fst (main sample_runtime fs_a_bad))) = [lit ''pkg-a|shareds/common'']"
proof -
  have h1: "lit ''shareds/cache'' \<in> set ORDERED_PATHS" by (simp add: ORDERED_PATHS_def)
  have h2: "files (initial fs_a_bad) (pkg_json (lit ''shareds/cache'')) = Regular (Inr text_bad)"
    by (simp add: initial_def fs_a_bad_def fs_of_def pkg_json_def lit_def
        common_json_def cache_json_def)
  have h3: "json_loads sample_runtime text_bad =
      Inl (lit ''Expecting value: line 1 column 1 (char 0)'')"
    by (simp add: sample_simps)
  have h4: "list_all (passes sample_runtime fs_a_bad) (before (lit ''shareds/cache'') ORDERED_PATHS)"
    by (simp add: sample_simps vocabulary_simps fs_a_bad_def)
  have m: "lines_of (stdout (fst (main sample_runtime fs_a_bad))) = [lit ''pkg-a|shareds/common'']"
    by (simp add: sample_simps fs_a_bad_def)
  from parse_fault_propagates [OF h1 h2 h3, of "lit ''shareds/async''"] h4
  have "body sample_runtime (initial fs_a_bad) (lit ''shareds/cache'') =
      (initial fs_a_bad, Some (ParseFault (lit ''Expecting value: line 1 column 1 (char 0)'')))"
    and "snd (main sample_runtime fs_a_bad) =
      Some (ParseFault (lit ''Expecting value: line 1 column 1 (char 0)''))"
    by (simp_all add: initial_def list_all_iff)
  with h1 h2 h3 h4 m show ?thesis by blast
qed

text \<open>
  C10 as stated does not hold, in two ways. In both file systems the manifest of
  \<open>shareds/cache\<close> is the JSON array \<^verbatim>\<open>[]\<close>. In the first, the manifest of
  \<open>shareds/common\<close>, which comes first, is malformed: the run fails in the parsing
  layer, not at \<^verbatim>\<open>get\<close>. In the second, the name of \<open>shareds/common\<close> contains a
  newline and prints the line \<open>pkg-b|shareds/cache\<close> before the run fails at
  \<^verbatim>\<open>get\<close>: the output has a line for the entry.
\<close>
theorem attribute_fault_counterexample:
  "lit ''shareds/cache'' \<in> set ORDERED_PATHS \<and>
   fs_bad_array (pkg_json (lit ''shareds/cache'')) = Regular (Inr text_array) \<and>
   json_loads sample_runtime text_array = Inr (JArray []) \<and>
   \<not> is_object (JArray []) \<and>
   snd (main sample_runtime fs_bad_array) =
     Some (ParseFault (lit ''Expecting value: line 1 column 1 (char 0)'')) \<and>
   fs_two_lines_array (pkg_json (lit ''shareds/cache'')) = Regular (Inr text_array) \<and>
   snd (main sample_runtime fs_two_lines_array) = Some AttributeError \<and>
   lit ''pkg-b|shareds/cache'' \<in>
     set (lines_of (stdout (fst (main sample_runtime fs_two_lines_array))))"
  by (simp add: sample_simps is_object_def fs_bad_array_def fs_two_lines_array_def)

text \<open>
  C10, amended. For an entry \<open>p\<close> of \<open>ORDERED_PATHS\<close> whose manifest is read and parses
  to a value that is not an object, the parser returns the value, \<^verbatim>\<open>get\<close> raises
  \<^verbatim>\<open>AttributeError\<close>, and the loop body ends with it and writes nothing; the run
  fails; when no text that an entry prints contains a newline, the output has no line
  \<open>name|p\<close>; and when every entry in front of \<open>p\<close> passes, the run fails with
  \<^verbatim>\<open>AttributeError\<close>.
\<close>
theorem non_object_manifest_raises:
  assumes "p \<in> set ORDERED_PATHS"
    and "files s (pkg_json p) = Regular (Inr text)"
    and "json_loads L text = Inr v"
    and "\<not> is_object v"
  shows "loads L text = Inr v \<and>
         dict_get v (lit ''name'') (JString p) = Inl AttributeError \<and>
         body L s p = (s, Some AttributeError) \<and>
         snd (main L (files s)) \<noteq> None \<and>
         ((\<forall>q\<in>set ORDERED_PATHS. one_line L (files s) q) \<longrightarrow>
            n @ lit ''|'' @ p \<notin> set (lines_of (stdout (fst (main L (files s)))))) \<and>
         ((\<forall>q\<in>set (before p ORDERED_PATHS). passes L (files s) q) \<longrightarrow>
            snd (main L (files s)) = Some AttributeError)"
proof -
  from assms(2-4) have e: "entry L (files s) p = Inl AttributeError"
    by (cases v) (simp_all add: entry_def is_object_def)
  then have "body L s p = (s, Some AttributeError)" by (simp add: body_entry)
  moreover have "snd (main L (files s)) \<noteq> None" using assms(1) e by (rule some_fault)
  moreover have "(\<forall>q\<in>set ORDERED_PATHS. one_line L (files s) q) \<longrightarrow>
      n @ lit ''|'' @ p \<notin> set (lines_of (stdout (fst (main L (files s)))))"
    using line_in_output [OF assms(1), of L "files s" n] e by auto
  moreover have "(\<forall>q\<in>set (before p ORDERED_PATHS). passes L (files s) q) \<longrightarrow>
            snd (main L (files s)) = Some AttributeError"
    using first_fault [OF assms(1) e] by blast
  moreover have "loads L text = Inr v" using assms(3) by (simp add: loads_def)
  moreover have "dict_get v (lit ''name'') (JString p) = Inl AttributeError"
    using assms(4) by (cases v) (simp_all add: dict_get_def is_object_def)
  ultimately show ?thesis by blast
qed

theorem non_object_manifest_raises_witness:
  "lit ''shareds/cache'' \<in> set ORDERED_PATHS \<and>
   files (initial fs_a_array) (pkg_json (lit ''shareds/cache'')) = Regular (Inr text_array) \<and>
   json_loads sample_runtime text_array = Inr (JArray []) \<and>
   \<not> is_object (JArray []) \<and>
   list_all (passes sample_runtime fs_a_array) (before (lit ''shareds/cache'') ORDERED_PATHS) \<and>
   list_all (one_line sample_runtime fs_a_array) ORDERED_PATHS \<and>
   body sample_runtime (initial fs_a_array) (lit ''shareds/cache'') =
     (initial fs_a_array, Some AttributeError) \<and>
   snd (main sample_runtime fs_a_array) = Some AttributeError \<and>
   lines_of (stdout (fst (main sample_runtime fs_a_array))) = [lit ''pkg-a|shareds/common'']"
proof -
  have h1: "lit ''shareds/cache'' \<in> set ORDERED_PATHS" by (simp add: ORDERED_PATHS_def)
  have h2: "files (initial fs_a_array) (pkg_json (lit ''shareds/cache'')) =
      Regular (Inr text_array)"
    by (simp add: initial_def fs_a_array_def fs_of_def pkg_json_def lit_def
        common_json_def cache_json_def)
  have h3: "json_loads sample_runtime text_array = Inr (JArray [])"
    by (simp add: sample_simps)
  have h4: "\<not> is_object (JArray [])" by (simp add: is_object_def)
  have h5: "list_all (passes sample_runtime fs_a_array)
      (before (lit ''shareds/cache'') ORDERED_PATHS)"
    by (simp add: sample_simps vocabulary_simps fs_a_array_def)
  have h6: "list_all (one_line sample_runtime fs_a_array) ORDERED_PATHS"
    by (simp add: sample_simps vocabulary_simps fs_a_array_def)
  have m: "lines_of (stdout (fst (main sample_runtime fs_a_array))) =
      [lit ''pkg-a|shareds/common'']"
    by (simp add: sample_simps fs_a_array_def)
  from non_object_manifest_raises [OF h1 h2 h3 h4, of "lit ''pkg-a''"] h5
  have "body sample_runtime (initial fs_a_array) (lit ''shareds/cache'') =
      (initial fs_a_array, Some AttributeError)"
    and "snd (main sample_runtime fs_a_array) = Some AttributeError"
    by (simp_all add: initial_def list_all_iff)
  with h1 h2 h3 h4 h5 h6 m show ?thesis by blast
qed

end
